theory Spec2Isabelle
  imports Complex_Main "HOL-Library.Log_Nat"
begin

section \<open>JavaScript numbers\<close>

text \<open>
  The handlers of \<^verbatim>\<open>src/app/lib/actions.ts\<close> compute with JavaScript numbers
  (IEEE 754 binary64). A number is modelled as not-a-number, one of the two infinities, or
  a finite value given by the rational it denotes. The two zeros are one value \<open>Fin 0\<close>:
  no comparison of the source tells them apart.
\<close>

datatype number = NaN | PosInf | NegInf | Fin rat

definition pow2 :: "int \<Rightarrow> rat" where
  "pow2 e = (if 0 \<le> e then 2 ^ nat e else 1 / 2 ^ nat (- e))"

text \<open>The binary exponent of a positive rational: \<open>2^e \<le> a < 2^(e+1)\<close>.\<close>

definition binade :: "rat \<Rightarrow> int" where
  "binade a =
     (if 1 \<le> a then int (floorlog 2 (nat \<lfloor>a\<rfloor>)) - 1
      else - int (floorlog 2 (nat (\<lceil>1 / a\<rceil> - 1))))"

definition round_half_even :: "rat \<Rightarrow> int" where
  "round_half_even x =
     (let f = \<lfloor>x\<rfloor>; d = x - of_int f
      in if d < 1 / 2 then f
         else if 1 / 2 < d then f + 1
         else if even f then f else f + 1)"

text \<open>
  Rounding of an exact result to the nearest binary64 value, ties to even: 53 significant
  bits, gradual underflow below \<open>2^-1022\<close>, overflow to an infinity from \<open>2^1024\<close> on.
\<close>

definition to_double :: "rat \<Rightarrow> number" where
  "to_double x =
     (if x = 0 then Fin 0
      else let a = \<bar>x\<bar>;
               e = max (binade a) (- 1022);
               ulp = pow2 (e - 52);
               r = of_int (round_half_even (a / ulp)) * ulp
           in if pow2 1024 \<le> r then (if 0 < x then PosInf else NegInf)
              else Fin (if 0 < x then r else - r))"

text \<open>The sign of a number that is not NaN.\<close>

fun sign_of :: "number \<Rightarrow> int" where
  "sign_of (Fin x) = (if x < 0 then - 1 else if x = 0 then 0 else 1)"
| "sign_of PosInf = 1"
| "sign_of NegInf = - 1"
| "sign_of NaN = 0"

text \<open>The operator \<^verbatim>\<open>*\<close>.\<close>

fun js_times :: "number \<Rightarrow> number \<Rightarrow> number" where
  "js_times NaN b = NaN"
| "js_times a NaN = NaN"
| "js_times (Fin x) (Fin y) = to_double (x * y)"
| "js_times a b =
     (let s = sign_of a * sign_of b
      in if s = 0 then NaN else if 0 < s then PosInf else NegInf)"

text \<open>The operators \<^verbatim>\<open><\<close>, \<^verbatim>\<open>>\<close> and \<^verbatim>\<open><=\<close>: false whenever an operand is NaN.\<close>

fun js_less :: "number \<Rightarrow> number \<Rightarrow> bool" where
  "js_less NaN b = False"
| "js_less a NaN = False"
| "js_less (Fin x) (Fin y) = (x < y)"
| "js_less a PosInf = (a \<noteq> PosInf)"
| "js_less NegInf b = (b \<noteq> NegInf)"
| "js_less a b = False"

definition js_greater :: "number \<Rightarrow> number \<Rightarrow> bool" where
  "js_greater a b = js_less b a"

definition js_le :: "number \<Rightarrow> number \<Rightarrow> bool" where
  "js_le a b = (a \<noteq> NaN \<and> b \<noteq> NaN \<and> \<not> js_less b a)"

section \<open>Form data\<close>

text \<open>
  A \<^verbatim>\<open>FormData\<close> is a list of entries, each a string or a file;
  \<^verbatim>\<open>formData.get(name)\<close> is the first entry of that name, or \<^verbatim>\<open>null\<close>.
\<close>

datatype entry = EString string | EFile

type_synonym FormData = "(string \<times> entry) list"

datatype formval = VNull | VString string | VFile

definition FormData_get :: "FormData \<Rightarrow> string \<Rightarrow> formval" where
  "FormData_get formData name =
     (case map_of formData name of
        None \<Rightarrow> VNull
      | Some (EString s) \<Rightarrow> VString s
      | Some EFile \<Rightarrow> VFile)"

text \<open>
  \<^verbatim>\<open>formData.toString()\<close>: \<^verbatim>\<open>FormData\<close> defines no \<^verbatim>\<open>toString\<close> of its own,
  so the call is \<^verbatim>\<open>Object.prototype.toString\<close>, whose result is built from the
  object's string tag alone and never from its entries.
\<close>

definition FormData_toString :: "FormData \<Rightarrow> string" where
  "FormData_toString formData = ''[object FormData]''"

text \<open>\<^verbatim>\<open>new Blob([s]).size\<close>: the number of bytes of the string.\<close>

definition Blob_size :: "string \<Rightarrow> nat" where
  "Blob_size s = length s"

text \<open>\<^verbatim>\<open>validatePayloadSize\<close> of \<^verbatim>\<open>src/app/lib/monitoring.ts\<close>.\<close>

definition validatePayloadSize :: "FormData \<Rightarrow> number \<Rightarrow> bool" where
  "validatePayloadSize formData maxSizeKB =
     (let dataSize = Fin (of_nat (Blob_size (FormData_toString formData)))
      in js_le dataSize (js_times maxSizeKB (Fin 1024)))"

text \<open>The default value of the parameter \<^verbatim>\<open>maxSizeKB\<close>.\<close>

definition maxSizeKB_default :: number where
  "maxSizeKB_default = Fin 1"

section \<open>The surrounding application\<close>

text \<open>
  The handlers call the SQL client, the framework (\<^verbatim>\<open>revalidatePath\<close>,
  \<^verbatim>\<open>redirect\<close>), the sign-in provider and the validation library. What the handlers
  do with the answers is in the source; the answers themselves are not, and are parameters
  of the model. \<^verbatim>\<open>revalidatePath\<close> is taken to return normally. Console output and
  the timing of \<^verbatim>\<open>Date.now()\<close> are left out.
\<close>

datatype sql_stmt =
    InsertInvoice string number string string
  | UpdateInvoice string number string string
  | DeleteInvoice string

text \<open>
  \<open>InsertInvoice customer_id amount status date\<close>,
  \<open>UpdateInvoice customer_id amount status id\<close> and \<open>DeleteInvoice id\<close> are the three
  statements of the source with their parameters in the order they are written there.
\<close>

datatype js_error = Error string | AuthError string | OtherError string

datatype call =
    SqlCall sql_stmt
  | RevalidatePath string
  | Redirect string
  | SignIn string FormData

record 'db env =
  string_to_number :: "string \<Rightarrow> number"
  uuid_ok :: "string \<Rightarrow> bool"
  email_ok :: "string \<Rightarrow> bool"
  sql_exec :: "sql_stmt \<Rightarrow> 'db \<Rightarrow> 'db option"
  now_iso :: string
  signIn :: "string \<Rightarrow> FormData \<Rightarrow> js_error option"

text \<open>
  \<^item> \<open>string_to_number\<close>: \<^verbatim>\<open>Number(s)\<close> on a string;
  \<^item> \<open>uuid_ok\<close>, \<open>email_ok\<close>: the library's \<^verbatim>\<open>.uuid()\<close> and \<^verbatim>\<open>.email()\<close> checks;
  \<^item> \<open>sql_exec\<close>: the database's answer to one statement, \<open>None\<close> when the awaited
    call rejects, the new contents otherwise;
  \<^item> \<open>now_iso\<close>: \<^verbatim>\<open>new Date().toISOString()\<close>;
  \<^item> \<open>signIn\<close>: \<open>None\<close> when the awaited call resolves, the error it rejects with
    otherwise.
\<close>

record 'db world =
  db :: 'db
  calls :: "call list"

datatype 'a outcome = Returned 'a | Redirected string | Threw js_error

text \<open>
  \<^verbatim>\<open>redirect(path)\<close> never returns to its caller: the framework unwinds the handler.
  That end of a handler is the outcome \<open>Redirected path\<close>.
\<close>

definition sql :: "'db env \<Rightarrow> sql_stmt \<Rightarrow> 'db world \<Rightarrow> bool \<times> 'db world" where
  "sql env stmt w =
     (case sql_exec env stmt (db w) of
        None \<Rightarrow> (False, w\<lparr>calls := calls w @ [SqlCall stmt]\<rparr>)
      | Some d \<Rightarrow> (True, w\<lparr>db := d, calls := calls w @ [SqlCall stmt]\<rparr>))"

definition revalidatePath :: "string \<Rightarrow> 'db world \<Rightarrow> 'db world" where
  "revalidatePath path w = w\<lparr>calls := calls w @ [RevalidatePath path]\<rparr>"

definition redirect :: "string \<Rightarrow> 'db world \<Rightarrow> 'db world" where
  "redirect path w = w\<lparr>calls := calls w @ [Redirect path]\<rparr>"

text \<open>\<^verbatim>\<open>Number(v)\<close> on what \<^verbatim>\<open>formData.get\<close> returns.\<close>

definition Number_coerce :: "'db env \<Rightarrow> formval \<Rightarrow> number" where
  "Number_coerce env v =
     (case v of
        VNull \<Rightarrow> Fin 0
      | VString s \<Rightarrow> string_to_number env s
      | VFile \<Rightarrow> NaN)"

text \<open>\<^verbatim>\<open>new Date().toISOString().split('T')[0]\<close>.\<close>

definition split_T_first :: "string \<Rightarrow> string" where
  "split_T_first s = takeWhile (\<lambda>c. c \<noteq> CHR ''T'') s"

section \<open>The schemas\<close>

datatype 'a parsed = Valid 'a | Issues "string list"

fun issues :: "'a parsed \<Rightarrow> string list" where
  "issues (Valid x) = []"
| "issues (Issues ms) = ms"

text \<open>\<^verbatim>\<open>FormSchema.customerId\<close>.\<close>

definition customerId_schema :: "formval \<Rightarrow> string parsed" where
  "customerId_schema v =
     (case v of
        VString s \<Rightarrow>
          if length s < 1 then Issues [''Customer ID is required.''] else Valid s
      | _ \<Rightarrow> Issues [''Please select a customer.''])"

text \<open>
  \<^verbatim>\<open>FormSchema.amount\<close>: the coercion, the type check (NaN is not a number for the
  library), then both bounds, each adding its message.
\<close>

definition amount_schema :: "'db env \<Rightarrow> formval \<Rightarrow> number parsed" where
  "amount_schema env v =
     (let n = Number_coerce env v
      in if n = NaN then Issues [''Expected number, received nan'']
         else let ms =
                (if js_le n (Fin 0) then [''Please enter an amount greater than $0.''] else []) @
                (if js_greater n (Fin 1000000) then [''Amount cannot exceed $1,000,000.''] else [])
              in if ms = [] then Valid n else Issues ms)"

text \<open>\<^verbatim>\<open>FormSchema.status\<close>.\<close>

definition status_schema :: "formval \<Rightarrow> string parsed" where
  "status_schema v =
     (case v of
        VString s \<Rightarrow>
          if s \<in> set [''pending'', ''paid''] then Valid s
          else Issues [''Invalid enum value. Expected '' @ [CHR 0x27] @ ''pending'' @ [CHR 0x27]
                       @ '' | '' @ [CHR 0x27] @ ''paid'' @ [CHR 0x27] @ '', received ''
                       @ [CHR 0x27] @ s @ [CHR 0x27]]
      | _ \<Rightarrow> Issues [''Please select an invoice status.''])"

record raw_fields =
  raw_customerId :: formval
  raw_amount :: formval
  raw_status :: formval

record invoice_fields =
  customerId :: string
  amount :: number
  status :: string

type_synonym fieldErrors = "(string \<times> string list) list"

datatype safeParse_result = ParseSuccess invoice_fields | ParseFailure fieldErrors

text \<open>
  \<^verbatim>\<open>FormSchema.omit({ id: true, date: true }).safeParse(raw)\<close>; on failure the result
  carries \<^verbatim>\<open>error.flatten().fieldErrors\<close>, which has a key for each field with an
  issue.
\<close>

definition FormSchema_omit_safeParse :: "'db env \<Rightarrow> raw_fields \<Rightarrow> safeParse_result" where
  "FormSchema_omit_safeParse env raw =
     (let c = customerId_schema (raw_customerId raw);
          a = amount_schema env (raw_amount raw);
          s = status_schema (raw_status raw)
      in case (c, a, s) of
           (Valid cv, Valid av, Valid sv) \<Rightarrow>
             ParseSuccess \<lparr>customerId = cv, amount = av, status = sv\<rparr>
         | _ \<Rightarrow>
             ParseFailure
               (filter (\<lambda>(k, ms). ms \<noteq> [])
                  [(''customerId'', issues c), (''amount'', issues a), (''status'', issues s)]))"

definition CreateInvoice_safeParse :: "'db env \<Rightarrow> raw_fields \<Rightarrow> safeParse_result" where
  "CreateInvoice_safeParse = FormSchema_omit_safeParse"

definition UpdateInvoice_safeParse :: "'db env \<Rightarrow> raw_fields \<Rightarrow> safeParse_result" where
  "UpdateInvoice_safeParse = FormSchema_omit_safeParse"

text \<open>\<^verbatim>\<open>IdSchema.safeParse(id).success\<close>.\<close>

definition IdSchema_success :: "'db env \<Rightarrow> string \<Rightarrow> bool" where
  "IdSchema_success env id' = uuid_ok env id'"

text \<open>\<^verbatim>\<open>AuthSchema.safeParse({email, password}).success\<close>.\<close>

definition AuthSchema_success :: "'db env \<Rightarrow> formval \<Rightarrow> formval \<Rightarrow> bool" where
  "AuthSchema_success env email password =
     ((case email of VString e \<Rightarrow> email_ok env e \<and> length e \<le> 255 | _ \<Rightarrow> False) \<and>
      (case password of VString p \<Rightarrow> 6 \<le> length p \<and> length p \<le> 255 | _ \<Rightarrow> False))"

section \<open>The handlers\<close>

record State =
  errors :: "fieldErrors option"
  message :: "string option"

definition form_fields :: "FormData \<Rightarrow> raw_fields" where
  "form_fields formData =
     \<lparr>raw_customerId = FormData_get formData ''customerId'',
      raw_amount = FormData_get formData ''amount'',
      raw_status = FormData_get formData ''status''\<rparr>"

definition createInvoice ::
  "'db env \<Rightarrow> State \<Rightarrow> FormData \<Rightarrow> 'db world \<Rightarrow> State outcome \<times> 'db world" where
  "createInvoice env prevState formData w =
     (if \<not> validatePayloadSize formData maxSizeKB_default then
        (Returned \<lparr>errors = None, message = Some ''Request payload too large.''\<rparr>, w)
      else
        case CreateInvoice_safeParse env (form_fields formData) of
          ParseFailure fe \<Rightarrow>
            (Returned \<lparr>errors = Some fe,
                       message = Some ''Missing Fields. Failed to Create Invoice.''\<rparr>, w)
        | ParseSuccess d \<Rightarrow>
            let amountInCents = js_times (amount d) (Fin 100);
                date = split_T_first (now_iso env);
                (ok, w1) = sql env (InsertInvoice (customerId d) amountInCents (status d) date) w
            in if \<not> ok then
                 (Returned \<lparr>errors = None,
                            message = Some ''Database Error: Failed to Create Invoice.''\<rparr>, w1)
               else
                 let w2 = revalidatePath ''/dashboard/invoices'' w1;
                     w3 = redirect ''/dashboard/invoices'' w2
                 in (Redirected ''/dashboard/invoices'', w3))"

definition updateInvoice ::
  "'db env \<Rightarrow> string \<Rightarrow> State \<Rightarrow> FormData \<Rightarrow> 'db world \<Rightarrow> State outcome \<times> 'db world" where
  "updateInvoice env id' prevState formData w =
     (if \<not> IdSchema_success env id' then
        (Returned \<lparr>errors = None, message = Some ''Invalid ID format.''\<rparr>, w)
      else if \<not> validatePayloadSize formData maxSizeKB_default then
        (Returned \<lparr>errors = None, message = Some ''Request payload too large.''\<rparr>, w)
      else
        case UpdateInvoice_safeParse env (form_fields formData) of
          ParseFailure fe \<Rightarrow>
            (Returned \<lparr>errors = Some fe,
                       message = Some ''Missing Fields. Failed to Update Invoice.''\<rparr>, w)
        | ParseSuccess d \<Rightarrow>
            let amountInCents = js_times (amount d) (Fin 100);
                (ok, w1) = sql env (UpdateInvoice (customerId d) amountInCents (status d) id') w
            in if \<not> ok then
                 (Returned \<lparr>errors = None,
                            message = Some ''Database Error: Failed to Update Invoice.''\<rparr>, w1)
               else
                 let w2 = revalidatePath ''/dashboard/invoices'' w1;
                     w3 = redirect ''/dashboard/invoices'' w2
                 in (Redirected ''/dashboard/invoices'', w3))"

definition deleteInvoice ::
  "'db env \<Rightarrow> string \<Rightarrow> 'db world \<Rightarrow> State outcome \<times> 'db world" where
  "deleteInvoice env id' w =
     (if \<not> IdSchema_success env id' then
        (Returned \<lparr>errors = None, message = Some ''Invalid ID format.''\<rparr>, w)
      else
        let (ok, w1) = sql env (DeleteInvoice id') w
        in if ok then
             (Returned \<lparr>errors = None, message = Some ''Deleted Invoice.''\<rparr>,
              revalidatePath ''/dashboard/invoices'' w1)
           else
             (Returned \<lparr>errors = None,
                        message = Some ''Database Error: Failed to Delete Invoice.''\<rparr>, w1))"

definition deleteInvoiceAction ::
  "'db env \<Rightarrow> string \<Rightarrow> 'db world \<Rightarrow> unit outcome \<times> 'db world" where
  "deleteInvoiceAction env id' w =
     (if \<not> IdSchema_success env id' then (Threw (Error ''Invalid ID format.''), w)
      else
        let (ok, w1) = sql env (DeleteInvoice id') w
        in if ok then (Returned (), revalidatePath ''/dashboard/invoices'' w1)
           else (Threw (Error ''Database Error: Failed to Delete Invoice.''), w1))"

text \<open>
  \<^verbatim>\<open>authenticate\<close> returns a message, or \<^verbatim>\<open>undefined\<close> (\<open>None\<close>) when it runs
  off its end.
\<close>

definition authenticate ::
  "'db env \<Rightarrow> string option \<Rightarrow> FormData \<Rightarrow> 'db world \<Rightarrow> string option outcome \<times> 'db world"
  where
  "authenticate env prevState formData w =
     (if \<not> AuthSchema_success env (FormData_get formData ''email'')
              (FormData_get formData ''password'') then
        (Returned (Some ''Invalid input format.''), w)
      else
        let w1 = w\<lparr>calls := calls w @ [SignIn ''credentials'' formData]\<rparr>
        in case signIn env ''credentials'' formData of
             None \<Rightarrow> (Returned None, w1)
           | Some (AuthError t) \<Rightarrow>
               if t = ''CredentialsSignin'' then (Returned (Some ''Invalid credentials.''), w1)
               else (Returned (Some ''Something went wrong.''), w1)
           | Some e \<Rightarrow> (Threw e, w1))"

section \<open>What a run handed to the database\<close>

text \<open>
  The amounts of the INSERT and UPDATE statements among the calls of a run, in the order
  the statements were issued.
\<close>

fun stmt_amount :: "sql_stmt \<Rightarrow> number option" where
  "stmt_amount (InsertInvoice c a s d) = Some a"
| "stmt_amount (UpdateInvoice c a s i) = Some a"
| "stmt_amount (DeleteInvoice i) = None"

fun call_amount :: "call \<Rightarrow> number option" where
  "call_amount (SqlCall stmt) = stmt_amount stmt"
| "call_amount c = None"

definition sql_amounts :: "call list \<Rightarrow> number list" where
  "sql_amounts cs = List.map_filter call_amount cs"

section \<open>A sample application\<close>

text \<open>
  One instance of the parameters, on which the handlers are run below. \<open>sample_Number\<close>
  agrees with \<^verbatim>\<open>Number\<close> on the decimal literals of its table: each is rounded to
  the nearest binary64 value. \<open>sample_uuid_ok\<close> accepts the 8-4-4-4-12 hexadecimal
  layout. The sample database is the journal of the statements it accepted; its amount
  column is an INTEGER, so it rejects a statement whose amount is not an integer.
  \<open>offline_env\<close> is the same application with a database that rejects every statement.
\<close>

definition decimal_table :: "(string \<times> rat) list" where
  "decimal_table =
     [(''15.50'', 31 / 2), (''0.125'', 1 / 8), (''0.07'', 7 / 100), (''0'', 0),
      (''-5'', - 5), (''1000000'', 1000000), (''2000000'', 2000000)]"

definition sample_Number :: "string \<Rightarrow> number" where
  "sample_Number s = (case map_of decimal_table s of Some q \<Rightarrow> to_double q | None \<Rightarrow> NaN)"

definition is_hex :: "char \<Rightarrow> bool" where
  "is_hex c = (c \<in> set ''0123456789abcdefABCDEF'')"

definition sample_uuid_ok :: "string \<Rightarrow> bool" where
  "sample_uuid_ok s =
     (length s = 36 \<and>
      list_all is_hex (take 8 s) \<and> s ! 8 = CHR ''-'' \<and>
      list_all is_hex (take 4 (drop 9 s)) \<and> s ! 13 = CHR ''-'' \<and>
      list_all is_hex (take 4 (drop 14 s)) \<and> s ! 18 = CHR ''-'' \<and>
      list_all is_hex (take 4 (drop 19 s)) \<and> s ! 23 = CHR ''-'' \<and>
      list_all is_hex (drop 24 s))"

definition sample_email_ok :: "string \<Rightarrow> bool" where
  "sample_email_ok s =
     (takeWhile (\<lambda>c. c \<noteq> CHR ''@'') s \<noteq> [] \<and>
      1 < length (dropWhile (\<lambda>c. c \<noteq> CHR ''@'') s))"

fun integer_amount :: "sql_stmt \<Rightarrow> bool" where
  "integer_amount (InsertInvoice c (Fin x) s d) = (of_int \<lfloor>x\<rfloor> = x)"
| "integer_amount (UpdateInvoice c (Fin x) s i) = (of_int \<lfloor>x\<rfloor> = x)"
| "integer_amount (DeleteInvoice i) = True"
| "integer_amount stmt = False"

definition sample_sql_exec :: "sql_stmt \<Rightarrow> sql_stmt list \<Rightarrow> sql_stmt list option" where
  "sample_sql_exec stmt journal = (if integer_amount stmt then Some (journal @ [stmt]) else None)"

definition sample_signIn :: "string \<Rightarrow> FormData \<Rightarrow> js_error option" where
  "sample_signIn provider formData =
     (case FormData_get formData ''password'' of
        VString p \<Rightarrow>
          if p = ''correct-password'' then None
          else if p = ''wrong-password'' then Some (AuthError ''CredentialsSignin'')
          else if p = ''provider-down'' then Some (AuthError ''CallbackRouteError'')
          else Some (OtherError ''TypeError'')
      | _ \<Rightarrow> Some (OtherError ''TypeError''))"

definition sample_env :: "sql_stmt list env" where
  "sample_env =
     \<lparr>string_to_number = sample_Number,
      uuid_ok = sample_uuid_ok,
      email_ok = sample_email_ok,
      sql_exec = sample_sql_exec,
      now_iso = ''2026-11-02T09:30:00.000Z'',
      signIn = sample_signIn\<rparr>"

definition offline_env :: "sql_stmt list env" where
  "offline_env = sample_env\<lparr>sql_exec := (\<lambda>stmt journal. None)\<rparr>"

definition empty_world :: "sql_stmt list world" where
  "empty_world = \<lparr>db = [], calls = []\<rparr>"

definition no_state :: State where
  "no_state = \<lparr>errors = None, message = None\<rparr>"

definition invoice_form :: "string \<Rightarrow> string \<Rightarrow> string \<Rightarrow> FormData" where
  "invoice_form c a s =
     [(''customerId'', EString c), (''amount'', EString a), (''status'', EString s)]"

definition login_form :: "string \<Rightarrow> string \<Rightarrow> FormData" where
  "login_form e p = [(''email'', EString e), (''password'', EString p)]"

definition sample_customer :: string where
  "sample_customer = ''3958dc9e-712f-4377-85e9-fec4b6a6442a''"

definition sample_invoice :: string where
  "sample_invoice = ''d6e15727-9fe1-4961-8c5b-ea44a9bd81aa''"

definition oversized_form :: FormData where
  "oversized_form = invoice_form (replicate 2000 (CHR ''c'')) ''15.50'' ''pending''"

section \<open>Evaluating the number model\<close>

lemma floorlog2_numeral: "floorlog 2 (numeral n) = floorlog 2 (numeral n div 2) + 1"
  by (subst compute_floorlog) simp

lemma floorlog2_one: "floorlog 2 (Suc 0) = Suc 0"
  by (subst compute_floorlog) (simp add: floorlog_def)

lemma floorlog2_zero: "floorlog 2 0 = 0"
  by (simp add: floorlog_def)

lemma floor_rat_numeral_div: "\<lfloor>numeral a / numeral b :: rat\<rfloor> = numeral a div numeral b"
  using floor_divide_of_int_eq [of "numeral a" "numeral b", where ?'a = rat] by simp

lemma ceiling_rat_numeral_div:
  "\<lceil>numeral a / numeral b :: rat\<rceil> = - (- numeral a div numeral b)"
  using floor_divide_of_int_eq [of "- numeral a" "numeral b", where ?'a = rat]
  by (simp add: ceiling_def)

lemmas to_double_eval =
  to_double_def binade_def pow2_def round_half_even_def Let_def
  floorlog2_numeral floorlog2_one floorlog2_zero floor_rat_numeral_div ceiling_rat_numeral_div

lemma to_double_1024: "to_double 1024 = Fin 1024"
  by (simp add: to_double_eval)

lemma to_double_1550: "to_double 1550 = Fin 1550"
  by (simp add: to_double_eval)

lemma validatePayloadSize_default: "validatePayloadSize formData maxSizeKB_default"
  by (simp add: validatePayloadSize_def maxSizeKB_default_def FormData_toString_def
      Blob_size_def js_le_def to_double_1024)

lemma validatePayloadSize_measure:
  "validatePayloadSize formData maxSizeKB = js_le (Fin 17) (js_times maxSizeKB (Fin 1024))"
  by (simp add: validatePayloadSize_def FormData_toString_def Blob_size_def)

lemma validatePayloadSize_ignores_entries:
  "validatePayloadSize formData maxSizeKB = validatePayloadSize formData' maxSizeKB"
  by (simp add: validatePayloadSize_def FormData_toString_def)

section \<open>The schemas, field by field\<close>

lemma customerId_schema_Valid:
  "customerId_schema v = Valid c \<longleftrightarrow> v = VString c \<and> c \<noteq> []"
  by (auto simp: customerId_schema_def split: formval.splits if_splits)

lemma status_schema_Valid:
  "status_schema v = Valid s \<longleftrightarrow> v = VString s \<and> (s = ''pending'' \<or> s = ''paid'')"
  by (auto simp: status_schema_def split: formval.splits if_splits)

lemma amount_bounds_Fin:
  "js_le (Fin x) (Fin 0) = (x \<le> 0)" "js_greater (Fin x) (Fin 1000000) = (1000000 < x)"
  by (auto simp: js_le_def js_greater_def)

lemma amount_schema_Valid:
  "amount_schema env v = Valid a \<longleftrightarrow>
     Number_coerce env v = a \<and> (\<exists>x. a = Fin x \<and> 0 < x \<and> x \<le> 1000000)"
  by (cases "Number_coerce env v")
     (auto simp: amount_schema_def Let_def js_le_def js_greater_def split: if_splits)

lemma customerId_schema_Issues: "customerId_schema v = Issues ms \<Longrightarrow> ms \<noteq> []"
  by (auto simp: customerId_schema_def split: formval.splits if_splits)

lemma status_schema_Issues: "status_schema v = Issues ms \<Longrightarrow> ms \<noteq> []"
  by (auto simp: status_schema_def split: formval.splits if_splits)

lemma amount_schema_Issues: "amount_schema env v = Issues ms \<Longrightarrow> ms \<noteq> []"
  by (auto simp: amount_schema_def Let_def split: if_splits)

lemma safeParse_Success:
  "FormSchema_omit_safeParse env raw = ParseSuccess d \<longleftrightarrow>
     customerId_schema (raw_customerId raw) = Valid (customerId d) \<and>
     amount_schema env (raw_amount raw) = Valid (amount d) \<and>
     status_schema (raw_status raw) = Valid (status d)"
  by (cases d)
     (auto simp: FormSchema_omit_safeParse_def Let_def split: parsed.splits)

lemma safeParse_Failure_nonempty:
  assumes "FormSchema_omit_safeParse env raw = ParseFailure fe"
  shows "fe \<noteq> []"
  using assms
  by (auto simp: FormSchema_omit_safeParse_def Let_def split: parsed.splits
      dest: customerId_schema_Issues status_schema_Issues amount_schema_Issues)

lemma sql_amounts_append: "sql_amounts (xs @ ys) = sql_amounts xs @ sql_amounts ys"
  by (simp add: sql_amounts_def map_filter_def)

lemma sql_amounts_simps:
  "sql_amounts [] = []"
  "sql_amounts (SqlCall stmt # cs) =
     (case stmt_amount stmt of None \<Rightarrow> sql_amounts cs | Some a \<Rightarrow> a # sql_amounts cs)"
  "sql_amounts (RevalidatePath p # cs) = sql_amounts cs"
  "sql_amounts (Redirect p # cs) = sql_amounts cs"
  by (simp_all add: sql_amounts_def map_filter_def split: option.split)

lemma sample_Number_values:
  "sample_Number ''15.50'' = Fin (31 / 2)"
  "sample_Number ''0.125'' = Fin (1 / 8)"
  "sample_Number ''0.07'' = Fin (1261007895663739 / 18014398509481984)"
  "sample_Number ''0'' = Fin 0"
  "sample_Number ''2000000'' = Fin 2000000"
  "sample_Number ''abc'' = NaN"
  by (simp_all add: sample_Number_def decimal_table_def to_double_eval)

lemma sample_products:
  "to_double (25 / 2) = Fin (25 / 2)"
  "to_double (31525197391593475 / 4503599627370496) =
     Fin (7881299347898369 / 1125899906842624)"
  by (simp_all add: to_double_eval)

lemma sample_uuids:
  "sample_uuid_ok sample_invoice" "sample_uuid_ok sample_customer" "\<not> sample_uuid_ok ''42''"
  by (simp_all add: sample_uuid_ok_def sample_invoice_def sample_customer_def is_hex_def)

lemma sample_customer_nonempty: "sample_customer \<noteq> []"
  by (simp add: sample_customer_def)

lemmas sample_eval =
  sample_customer_nonempty
  sample_env_def offline_env_def empty_world_def no_state_def invoice_form_def login_form_def
  sample_sql_exec_def sample_signIn_def sample_email_ok_def sample_Number_values
  sample_products sample_uuids to_double_1550 validatePayloadSize_default

lemmas handler_eval =
  createInvoice_def updateInvoice_def deleteInvoice_def deleteInvoiceAction_def
  authenticate_def CreateInvoice_safeParse_def UpdateInvoice_safeParse_def
  FormSchema_omit_safeParse_def IdSchema_success_def AuthSchema_success_def
  customerId_schema_def amount_schema_def status_schema_def form_fields_def FormData_get_def
  Number_coerce_def js_le_def js_greater_def sql_def revalidatePath_def redirect_def
  split_T_first_def Let_def

section \<open>The amount handed to the database\<close>

text \<open>
  For every validated submission, with \<open>d\<close> the validated fields, the amount of \<open>d\<close>
  is the coerced form value, and the one INSERT of \<^verbatim>\<open>createInvoice\<close> and the one
  UPDATE of \<^verbatim>\<open>updateInvoice\<close> (for a well-formed id) carry the binary64 product
  \<open>amount * 100\<close> as it is: the handlers neither truncate nor round it.
\<close>

lemma amount_parameter_is_product:
  assumes "FormSchema_omit_safeParse env (form_fields formData) = ParseSuccess d"
  shows "amount d = Number_coerce env (FormData_get formData ''amount'') \<and>
         sql_amounts (calls (snd (createInvoice env prevState formData w))) =
           sql_amounts (calls w) @ [js_times (amount d) (Fin 100)] \<and>
         (uuid_ok env id' \<longrightarrow>
            sql_amounts (calls (snd (updateInvoice env id' prevState formData w))) =
              sql_amounts (calls w) @ [js_times (amount d) (Fin 100)])"
proof (intro conjI impI)
  show "amount d = Number_coerce env (FormData_get formData ''amount'')"
    using assms by (simp add: safeParse_Success amount_schema_Valid form_fields_def)
  show "sql_amounts (calls (snd (createInvoice env prevState formData w))) =
      sql_amounts (calls w) @ [js_times (amount d) (Fin 100)]"
    using assms
    by (simp add: createInvoice_def validatePayloadSize_default CreateInvoice_safeParse_def
        sql_def revalidatePath_def redirect_def sql_amounts_append sql_amounts_simps Let_def
        split: option.split)
next
  assume "uuid_ok env id'"
  then show "sql_amounts (calls (snd (updateInvoice env id' prevState formData w))) =
      sql_amounts (calls w) @ [js_times (amount d) (Fin 100)]"
    using assms
    by (simp add: updateInvoice_def validatePayloadSize_default UpdateInvoice_safeParse_def
        IdSchema_success_def sql_def revalidatePath_def redirect_def sql_amounts_append
        sql_amounts_simps Let_def split: option.split)
qed

text \<open>
  Claim C1, at the submission \<^verbatim>\<open>amount = "0.07"\<close>, an amount of whole cents. The
  submission is validated, with amount \<^verbatim>\<open>Number("0.07")\<close>, whose hundredfold
  truncates to 7. The value \<^verbatim>\<open>amountInCents\<close> that both handlers send for the
  amount column is 7.000000000000001, which is not an integer; the INTEGER column of the
  sample database rejects the statement, nothing is written, and the handlers return
  their database-error messages.
\<close>

theorem C1_whole_cents_not_integer:
  "FormSchema_omit_safeParse sample_env
     (form_fields (invoice_form sample_customer ''0.07'' ''pending'')) =
     ParseSuccess \<lparr>customerId = sample_customer,
                   amount = Fin (1261007895663739 / 18014398509481984),
                   status = ''pending''\<rparr> \<and>
   \<lfloor>(1261007895663739 / 18014398509481984 :: rat) * 100\<rfloor> = 7 \<and>
   createInvoice sample_env no_state (invoice_form sample_customer ''0.07'' ''pending'')
     empty_world =
     (Returned \<lparr>errors = None, message = Some ''Database Error: Failed to Create Invoice.''\<rparr>,
      \<lparr>db = [],
       calls = [SqlCall (InsertInvoice sample_customer
                  (Fin (7881299347898369 / 1125899906842624)) ''pending'' ''2026-11-02'')]\<rparr>) \<and>
   updateInvoice sample_env sample_invoice no_state
     (invoice_form sample_customer ''0.07'' ''pending'') empty_world =
     (Returned \<lparr>errors = None, message = Some ''Database Error: Failed to Update Invoice.''\<rparr>,
      \<lparr>db = [],
       calls = [SqlCall (UpdateInvoice sample_customer
                  (Fin (7881299347898369 / 1125899906842624)) ''pending'' sample_invoice)]\<rparr>) \<and>
   (7881299347898369 / 1125899906842624 :: rat) \<noteq> 7 \<and>
   of_int \<lfloor>7881299347898369 / 1125899906842624 :: rat\<rfloor> \<noteq>
     (7881299347898369 / 1125899906842624 :: rat)"
  by (simp add: sample_eval handler_eval floor_rat_numeral_div)

text \<open>
  The same beyond whole cents: on \<^verbatim>\<open>amount = "0.125"\<close> both handlers send 12.5,
  neither 12, the truncation, nor 13, the rounding.
\<close>

lemma eighth_of_a_dollar:
  "Number_coerce sample_env
     (FormData_get (invoice_form sample_customer ''0.125'' ''pending'') ''amount'') =
     Fin (1 / 8) \<and>
   sql_amounts (calls (snd (createInvoice sample_env no_state
       (invoice_form sample_customer ''0.125'' ''pending'') empty_world))) = [Fin (25 / 2)] \<and>
   sql_amounts (calls (snd (updateInvoice sample_env sample_invoice no_state
       (invoice_form sample_customer ''0.125'' ''pending'') empty_world))) = [Fin (25 / 2)] \<and>
   db (snd (createInvoice sample_env no_state
       (invoice_form sample_customer ''0.125'' ''pending'') empty_world)) = [] \<and>
   Fin (25 / 2) \<noteq> Fin (of_int \<lfloor>(1 / 8 :: rat) * 100\<rfloor>) \<and>
   Fin (25 / 2) \<noteq> Fin (of_int (round ((1 / 8 :: rat) * 100)))"
  by (simp add: sample_eval handler_eval sql_amounts_simps round_def floor_rat_numeral_div)

section \<open>The payload-size guard\<close>

text \<open>
  Claim C2, at a submission whose customer field alone has 2000 bytes: the size the guard
  measures is 17, the length of \<^verbatim>\<open>[object FormData]\<close>, the guard accepts the
  submission, and \<^verbatim>\<open>createInvoice\<close> goes on to validate the fields, insert the row
  and redirect instead of returning \<^verbatim>\<open>Request payload too large.\<close>
\<close>

theorem C2_oversized_form_not_rejected:
  "length (replicate 2000 (CHR ''c'')) = 2000 \<and>
   FormData_get oversized_form ''customerId'' = VString (replicate 2000 (CHR ''c'')) \<and>
   Blob_size (FormData_toString oversized_form) = 17 \<and>
   validatePayloadSize oversized_form maxSizeKB_default \<and>
   createInvoice sample_env no_state oversized_form empty_world =
     (Redirected ''/dashboard/invoices'',
      \<lparr>db = [InsertInvoice (replicate 2000 (CHR ''c'')) (Fin 1550) ''pending'' ''2026-11-02''],
       calls = [SqlCall (InsertInvoice (replicate 2000 (CHR ''c'')) (Fin 1550) ''pending''
                           ''2026-11-02''),
                RevalidatePath ''/dashboard/invoices'',
                Redirect ''/dashboard/invoices'']\<rparr>)"
  by (simp add: oversized_form_def sample_eval handler_eval FormData_toString_def Blob_size_def)

section \<open>Identifier validation\<close>

text \<open>
  Claim C3. For every id that the UUID check refuses, \<^verbatim>\<open>updateInvoice\<close> and
  \<^verbatim>\<open>deleteInvoice\<close> return the message \<^verbatim>\<open>Invalid ID format.\<close> and leave the
  world as it was: no SQL statement is issued and the database is unchanged.
\<close>

theorem C3_invalid_id_rejected:
  assumes "\<not> uuid_ok env id'"
  shows "updateInvoice env id' prevState formData w =
           (Returned \<lparr>errors = None, message = Some ''Invalid ID format.''\<rparr>, w) \<and>
         deleteInvoice env id' w =
           (Returned \<lparr>errors = None, message = Some ''Invalid ID format.''\<rparr>, w)"
  using assms by (simp add: updateInvoice_def deleteInvoice_def IdSchema_success_def)

theorem C3_witness:
  "\<not> uuid_ok sample_env ''42'' \<and>
   updateInvoice sample_env ''42'' no_state (invoice_form ''c1'' ''15.50'' ''paid'') empty_world =
     (Returned \<lparr>errors = None, message = Some ''Invalid ID format.''\<rparr>, empty_world) \<and>
   deleteInvoice sample_env ''42'' empty_world =
     (Returned \<lparr>errors = None, message = Some ''Invalid ID format.''\<rparr>, empty_world)"
proof -
  have h: "\<not> uuid_ok sample_env ''42''"
    by (simp add: sample_env_def sample_uuid_ok_def)
  show ?thesis
    using h C3_invalid_id_rejected [OF h] by simp
qed

section \<open>Creating an invoice\<close>

text \<open>
  Claim C4. On the submission \<^verbatim>\<open>{customerId, amount: "15.50", status: "pending"}\<close>,
  when the payload guard accepts it and the insert succeeds, \<^verbatim>\<open>createInvoice\<close> issues exactly one statement, the
  INSERT with amount 1550, status \<^verbatim>\<open>pending\<close> and the date part of the current
  time, then invalidates the cache of \<^verbatim>\<open>/dashboard/invoices\<close>, then redirects
  there.
\<close>

theorem C4_create_example:
  assumes "validatePayloadSize (invoice_form cid ''15.50'' ''pending'') maxSizeKB_default"
    and "string_to_number env ''15.50'' = Fin (31 / 2)"
    and "cid \<noteq> []"
    and "sql_exec env
           (InsertInvoice cid (Fin 1550) ''pending'' (split_T_first (now_iso env))) (db w) =
         Some d"
  shows "createInvoice env prevState (invoice_form cid ''15.50'' ''pending'') w =
           (Redirected ''/dashboard/invoices'',
            w\<lparr>db := d,
              calls := calls w @
                [SqlCall (InsertInvoice cid (Fin 1550) ''pending''
                            (split_T_first (now_iso env))),
                 RevalidatePath ''/dashboard/invoices'',
                 Redirect ''/dashboard/invoices'']\<rparr>)"
proof -
  have parse: "CreateInvoice_safeParse env (form_fields (invoice_form cid ''15.50'' ''pending''))
      = ParseSuccess \<lparr>customerId = cid, amount = Fin (31 / 2), status = ''pending''\<rparr>"
    using assms(2,3)
    by (simp add: CreateInvoice_safeParse_def FormSchema_omit_safeParse_def
        customerId_schema_def amount_schema_def status_schema_def form_fields_def
        invoice_form_def FormData_get_def Number_coerce_def js_le_def js_greater_def)
  have cents: "js_times (Fin (31 / 2)) (Fin 100) = Fin 1550"
    by (simp add: to_double_1550)
  show ?thesis
    using assms(1,4)
    by (simp add: createInvoice_def parse cents to_double_1550 sql_def revalidatePath_def
        redirect_def Let_def)
qed

theorem C4_witness:
  "uuid_ok sample_env sample_customer \<and>
   createInvoice sample_env no_state (invoice_form sample_customer ''15.50'' ''pending'')
     empty_world =
     (Redirected ''/dashboard/invoices'',
      \<lparr>db = [InsertInvoice sample_customer (Fin 1550) ''pending'' ''2026-11-02''],
       calls = [SqlCall (InsertInvoice sample_customer (Fin 1550) ''pending'' ''2026-11-02''),
                RevalidatePath ''/dashboard/invoices'',
                Redirect ''/dashboard/invoices'']\<rparr>)"
proof -
  have p: "validatePayloadSize (invoice_form sample_customer ''15.50'' ''pending'')
      maxSizeKB_default"
    by (rule validatePayloadSize_default)
  have n: "string_to_number sample_env ''15.50'' = Fin (31 / 2)"
    by (simp add: sample_eval)
  have c: "sample_customer \<noteq> []"
    by (rule sample_customer_nonempty)
  have q: "sql_exec sample_env
      (InsertInvoice sample_customer (Fin 1550) ''pending'' (split_T_first (now_iso sample_env)))
      (db empty_world) =
      Some [InsertInvoice sample_customer (Fin 1550) ''pending'' ''2026-11-02'']"
    by (simp add: sample_eval split_T_first_def)
  show ?thesis
    using C4_create_example [OF p n c q, of no_state]
    by (simp add: sample_eval split_T_first_def)
qed

section \<open>Field validation\<close>

text \<open>
  Claim C5. The field validator accepts a submission exactly when the customer id is a
  non-empty string, the amount coerces to a number above 0 and at most 1,000,000, and the
  status is \<^verbatim>\<open>pending\<close> or \<^verbatim>\<open>paid\<close>. An amount of at most 0, or above 1,000,000,
  fails validation with the message of its bound under the key \<^verbatim>\<open>amount\<close>.
\<close>

theorem C5_field_validation:
  "((\<exists>d. CreateInvoice_safeParse env raw = ParseSuccess d) \<longleftrightarrow>
      (\<exists>s. raw_customerId raw = VString s \<and> s \<noteq> []) \<and>
      (\<exists>x. Number_coerce env (raw_amount raw) = Fin x \<and> 0 < x \<and> x \<le> 1000000) \<and>
      (raw_status raw = VString ''pending'' \<or> raw_status raw = VString ''paid'')) \<and>
   (js_le (Number_coerce env (raw_amount raw)) (Fin 0) \<longrightarrow>
      (\<exists>fe. CreateInvoice_safeParse env raw = ParseFailure fe \<and>
            map_of fe ''amount'' = Some [''Please enter an amount greater than $0.''])) \<and>
   (js_greater (Number_coerce env (raw_amount raw)) (Fin 1000000) \<longrightarrow>
      (\<exists>fe. CreateInvoice_safeParse env raw = ParseFailure fe \<and>
            map_of fe ''amount'' = Some [''Amount cannot exceed $1,000,000.'']))"
proof (intro conjI impI)
  show "(\<exists>d. CreateInvoice_safeParse env raw = ParseSuccess d) \<longleftrightarrow>
      (\<exists>s. raw_customerId raw = VString s \<and> s \<noteq> []) \<and>
      (\<exists>x. Number_coerce env (raw_amount raw) = Fin x \<and> 0 < x \<and> x \<le> 1000000) \<and>
      (raw_status raw = VString ''pending'' \<or> raw_status raw = VString ''paid'')"
    (is "?L \<longleftrightarrow> ?R")
  proof
    assume ?L
    then obtain d where "FormSchema_omit_safeParse env raw = ParseSuccess d"
      by (auto simp: CreateInvoice_safeParse_def)
    then show ?R
      by (auto simp: safeParse_Success customerId_schema_Valid amount_schema_Valid
          status_schema_Valid)
  next
    assume ?R
    then obtain s x t where
      "raw_customerId raw = VString s" "s \<noteq> []"
      "Number_coerce env (raw_amount raw) = Fin x" "0 < x" "x \<le> 1000000"
      "raw_status raw = VString t" "t = ''pending'' \<or> t = ''paid''"
      by auto
    then have "FormSchema_omit_safeParse env raw =
        ParseSuccess \<lparr>customerId = s, amount = Fin x, status = t\<rparr>"
      by (simp add: safeParse_Success customerId_schema_Valid amount_schema_Valid
          status_schema_Valid)
    then show ?L
      by (auto simp: CreateInvoice_safeParse_def)
  qed
next
  assume le: "js_le (Number_coerce env (raw_amount raw)) (Fin 0)"
  then have "amount_schema env (raw_amount raw) =
      Issues [''Please enter an amount greater than $0.'']"
    by (cases "Number_coerce env (raw_amount raw)")
       (auto simp: amount_schema_def Let_def js_le_def js_greater_def)
  then show "\<exists>fe. CreateInvoice_safeParse env raw = ParseFailure fe \<and>
      map_of fe ''amount'' = Some [''Please enter an amount greater than $0.'']"
    by (simp add: CreateInvoice_safeParse_def FormSchema_omit_safeParse_def Let_def
        split: parsed.split)
next
  assume gt: "js_greater (Number_coerce env (raw_amount raw)) (Fin 1000000)"
  then have "amount_schema env (raw_amount raw) =
      Issues [''Amount cannot exceed $1,000,000.'']"
    by (cases "Number_coerce env (raw_amount raw)")
       (auto simp: amount_schema_def Let_def js_le_def js_greater_def)
  then show "\<exists>fe. CreateInvoice_safeParse env raw = ParseFailure fe \<and>
      map_of fe ''amount'' = Some [''Amount cannot exceed $1,000,000.'']"
    by (simp add: CreateInvoice_safeParse_def FormSchema_omit_safeParse_def Let_def
        split: parsed.split)
qed

theorem C5_witness:
  "CreateInvoice_safeParse sample_env
     \<lparr>raw_customerId = VString sample_customer, raw_amount = VString ''15.50'',
      raw_status = VString ''paid''\<rparr> =
     ParseSuccess \<lparr>customerId = sample_customer, amount = Fin (31 / 2), status = ''paid''\<rparr> \<and>
   js_le (Number_coerce sample_env VNull) (Fin 0) \<and>
   CreateInvoice_safeParse sample_env
     \<lparr>raw_customerId = VString sample_customer, raw_amount = VNull,
      raw_status = VString ''paid''\<rparr> =
     ParseFailure [(''amount'', [''Please enter an amount greater than $0.''])] \<and>
   js_greater (Number_coerce sample_env (VString ''2000000'')) (Fin 1000000) \<and>
   CreateInvoice_safeParse sample_env
     \<lparr>raw_customerId = VString sample_customer, raw_amount = VString ''2000000'',
      raw_status = VString ''paid''\<rparr> =
     ParseFailure [(''amount'', [''Amount cannot exceed $1,000,000.''])]"
  using
    C5_field_validation [of sample_env
      "\<lparr>raw_customerId = VString sample_customer, raw_amount = VString ''15.50'',
        raw_status = VString ''paid''\<rparr>"]
    C5_field_validation [of sample_env
      "\<lparr>raw_customerId = VString sample_customer, raw_amount = VNull,
        raw_status = VString ''paid''\<rparr>"]
    C5_field_validation [of sample_env
      "\<lparr>raw_customerId = VString sample_customer, raw_amount = VString ''2000000'',
        raw_status = VString ''paid''\<rparr>"]
  by (simp add: sample_eval handler_eval)

text \<open>
  Claim C8. When field validation fails, \<^verbatim>\<open>createInvoice\<close> and
  \<^verbatim>\<open>updateInvoice\<close> attempt no mutation: the world is as it was, with no SQL
  statement, no cache invalidation and no redirect. The handler that ran the validation
  (\<^verbatim>\<open>updateInvoice\<close> runs it for a well-formed id only) returns the non-empty
  per-field error mapping with its message.
\<close>

theorem C8_validation_failure_no_mutation:
  "(CreateInvoice_safeParse env (form_fields formData) = ParseFailure fe \<longrightarrow>
      fe \<noteq> [] \<and>
      createInvoice env prevState formData w =
        (Returned \<lparr>errors = Some fe,
                   message = Some ''Missing Fields. Failed to Create Invoice.''\<rparr>, w)) \<and>
   (UpdateInvoice_safeParse env (form_fields formData) = ParseFailure fe \<longrightarrow>
      fe \<noteq> [] \<and>
      snd (updateInvoice env id' prevState formData w) = w \<and>
      (uuid_ok env id' \<longrightarrow>
         fst (updateInvoice env id' prevState formData w) =
           Returned \<lparr>errors = Some fe,
                     message = Some ''Missing Fields. Failed to Update Invoice.''\<rparr>))"
  by (auto simp: createInvoice_def updateInvoice_def validatePayloadSize_default
      CreateInvoice_safeParse_def UpdateInvoice_safeParse_def IdSchema_success_def
      dest: safeParse_Failure_nonempty)

theorem C8_witness:
  "createInvoice sample_env no_state (invoice_form [] ''abc'' ''draft'') empty_world =
     (Returned
        \<lparr>errors = Some
           [(''customerId'', [''Customer ID is required.'']),
            (''amount'', [''Expected number, received nan'']),
            (''status'',
             [''Invalid enum value. Expected '' @ [CHR 0x27] @ ''pending'' @ [CHR 0x27]
              @ '' | '' @ [CHR 0x27] @ ''paid'' @ [CHR 0x27] @ '', received ''
              @ [CHR 0x27] @ ''draft'' @ [CHR 0x27]])],
         message = Some ''Missing Fields. Failed to Create Invoice.''\<rparr>,
      empty_world) \<and>
   updateInvoice sample_env sample_invoice no_state
     (invoice_form sample_customer ''0'' ''paid'') empty_world =
     (Returned
        \<lparr>errors = Some [(''amount'', [''Please enter an amount greater than $0.''])],
         message = Some ''Missing Fields. Failed to Update Invoice.''\<rparr>,
      empty_world)"
  using
    C8_validation_failure_no_mutation [of sample_env "invoice_form [] ''abc'' ''draft''"
      "[(''customerId'', [''Customer ID is required.'']),
        (''amount'', [''Expected number, received nan'']),
        (''status'',
         [''Invalid enum value. Expected '' @ [CHR 0x27] @ ''pending'' @ [CHR 0x27]
          @ '' | '' @ [CHR 0x27] @ ''paid'' @ [CHR 0x27] @ '', received ''
          @ [CHR 0x27] @ ''draft'' @ [CHR 0x27]])]"
      no_state empty_world]
    C8_validation_failure_no_mutation [of sample_env
      "invoice_form sample_customer ''0'' ''paid''"
      "[(''amount'', [''Please enter an amount greater than $0.''])]"
      no_state empty_world sample_invoice]
  by (simp add: sample_eval handler_eval)

section \<open>Deleting an invoice\<close>

text \<open>
  Claim C7. \<^verbatim>\<open>deleteInvoice\<close> and \<^verbatim>\<open>deleteInvoiceAction\<close> leave the same world
  for every id: for a well-formed id the one DELETE of that id, followed by the cache
  invalidation when the DELETE succeeded. They differ in how they end: on an invalid id
  and on a database failure the first returns a message and the second throws an error
  with the same message.
\<close>

theorem C7_delete_variants_agree:
  "snd (deleteInvoice env id' w) = snd (deleteInvoiceAction env id' w) \<and>
   (uuid_ok env id' \<and> sql_exec env (DeleteInvoice id') (db w) = Some d \<longrightarrow>
      snd (deleteInvoice env id' w) =
        w\<lparr>db := d,
          calls := calls w @ [SqlCall (DeleteInvoice id'),
                              RevalidatePath ''/dashboard/invoices'']\<rparr> \<and>
      fst (deleteInvoice env id' w) =
        Returned \<lparr>errors = None, message = Some ''Deleted Invoice.''\<rparr> \<and>
      fst (deleteInvoiceAction env id' w) = Returned ()) \<and>
   (uuid_ok env id' \<and> sql_exec env (DeleteInvoice id') (db w) = None \<longrightarrow>
      snd (deleteInvoice env id' w) = w\<lparr>calls := calls w @ [SqlCall (DeleteInvoice id')]\<rparr> \<and>
      fst (deleteInvoice env id' w) =
        Returned \<lparr>errors = None,
                  message = Some ''Database Error: Failed to Delete Invoice.''\<rparr> \<and>
      fst (deleteInvoiceAction env id' w) =
        Threw (Error ''Database Error: Failed to Delete Invoice.'')) \<and>
   (\<not> uuid_ok env id' \<longrightarrow>
      snd (deleteInvoice env id' w) = w \<and>
      fst (deleteInvoice env id' w) =
        Returned \<lparr>errors = None, message = Some ''Invalid ID format.''\<rparr> \<and>
      fst (deleteInvoiceAction env id' w) = Threw (Error ''Invalid ID format.''))"
  by (simp add: deleteInvoice_def deleteInvoiceAction_def IdSchema_success_def sql_def
      revalidatePath_def split: option.split)

theorem C7_witness:
  "deleteInvoice sample_env sample_invoice empty_world =
     (Returned \<lparr>errors = None, message = Some ''Deleted Invoice.''\<rparr>,
      \<lparr>db = [DeleteInvoice sample_invoice],
       calls = [SqlCall (DeleteInvoice sample_invoice),
                RevalidatePath ''/dashboard/invoices'']\<rparr>) \<and>
   deleteInvoiceAction sample_env sample_invoice empty_world =
     (Returned (),
      \<lparr>db = [DeleteInvoice sample_invoice],
       calls = [SqlCall (DeleteInvoice sample_invoice),
                RevalidatePath ''/dashboard/invoices'']\<rparr>) \<and>
   deleteInvoice offline_env sample_invoice empty_world =
     (Returned \<lparr>errors = None,
                message = Some ''Database Error: Failed to Delete Invoice.''\<rparr>,
      \<lparr>db = [], calls = [SqlCall (DeleteInvoice sample_invoice)]\<rparr>) \<and>
   deleteInvoiceAction offline_env sample_invoice empty_world =
     (Threw (Error ''Database Error: Failed to Delete Invoice.''),
      \<lparr>db = [], calls = [SqlCall (DeleteInvoice sample_invoice)]\<rparr>) \<and>
   deleteInvoice sample_env ''42'' empty_world =
     (Returned \<lparr>errors = None, message = Some ''Invalid ID format.''\<rparr>, empty_world) \<and>
   deleteInvoiceAction sample_env ''42'' empty_world =
     (Threw (Error ''Invalid ID format.''), empty_world)"
  using
    C7_delete_variants_agree [of sample_env sample_invoice empty_world
      "[DeleteInvoice sample_invoice]"]
    C7_delete_variants_agree [of offline_env sample_invoice empty_world]
    C7_delete_variants_agree [of sample_env "''42''" empty_world]
  by (simp add: sample_eval handler_eval)

text \<open>
  Claim C10. \<^verbatim>\<open>deleteInvoice\<close> always returns, with one of its three messages, and
  a rejected DELETE becomes the message \<^verbatim>\<open>Database Error: Failed to Delete Invoice.\<close>
\<close>

theorem C10_deleteInvoice_total:
  "(\<exists>m. fst (deleteInvoice env id' w) = Returned \<lparr>errors = None, message = Some m\<rparr> \<and>
        m \<in> {''Invalid ID format.'', ''Deleted Invoice.'',
              ''Database Error: Failed to Delete Invoice.''}) \<and>
   (uuid_ok env id' \<and> sql_exec env (DeleteInvoice id') (db w) = None \<longrightarrow>
      fst (deleteInvoice env id' w) =
        Returned \<lparr>errors = None,
                  message = Some ''Database Error: Failed to Delete Invoice.''\<rparr>)"
  by (simp add: deleteInvoice_def IdSchema_success_def sql_def split: option.split)

theorem C10_witness:
  "uuid_ok offline_env sample_invoice \<and>
   sql_exec offline_env (DeleteInvoice sample_invoice) (db empty_world) = None \<and>
   fst (deleteInvoice offline_env sample_invoice empty_world) =
     Returned \<lparr>errors = None,
               message = Some ''Database Error: Failed to Delete Invoice.''\<rparr> \<and>
   fst (deleteInvoice sample_env sample_invoice empty_world) =
     Returned \<lparr>errors = None, message = Some ''Deleted Invoice.''\<rparr>"
  using C10_deleteInvoice_total [of offline_env sample_invoice empty_world]
    C10_deleteInvoice_total [of sample_env sample_invoice empty_world]
  by (simp add: sample_eval handler_eval)

section \<open>Authentication\<close>

text \<open>
  Claim C6. When the credentials fail the shape check, \<^verbatim>\<open>authenticate\<close> returns
  \<^verbatim>\<open>Invalid input format.\<close> and the provider is not called. Otherwise the provider
  is called once: its \<^verbatim>\<open>AuthError\<close> of type \<^verbatim>\<open>CredentialsSignin\<close> becomes
  \<^verbatim>\<open>Invalid credentials.\<close>, any other \<^verbatim>\<open>AuthError\<close> becomes
  \<^verbatim>\<open>Something went wrong.\<close>, and any other error is thrown again.
\<close>

theorem C6_authenticate_failures:
  "(\<not> AuthSchema_success env (FormData_get formData ''email'')
        (FormData_get formData ''password'') \<longrightarrow>
      authenticate env prevState formData w =
        (Returned (Some ''Invalid input format.''), w)) \<and>
   (AuthSchema_success env (FormData_get formData ''email'')
        (FormData_get formData ''password'') \<longrightarrow>
      (signIn env ''credentials'' formData = Some (AuthError ''CredentialsSignin'') \<longrightarrow>
         authenticate env prevState formData w =
           (Returned (Some ''Invalid credentials.''),
            w\<lparr>calls := calls w @ [SignIn ''credentials'' formData]\<rparr>)) \<and>
      (signIn env ''credentials'' formData = Some (AuthError t) \<and>
         t \<noteq> ''CredentialsSignin'' \<longrightarrow>
         authenticate env prevState formData w =
           (Returned (Some ''Something went wrong.''),
            w\<lparr>calls := calls w @ [SignIn ''credentials'' formData]\<rparr>)) \<and>
      (signIn env ''credentials'' formData = Some e \<and> (\<forall>t. e \<noteq> AuthError t) \<longrightarrow>
         authenticate env prevState formData w =
           (Threw e, w\<lparr>calls := calls w @ [SignIn ''credentials'' formData]\<rparr>)))"
  by (cases e) (simp_all add: authenticate_def Let_def)

theorem C6_witness:
  "authenticate sample_env None (login_form [] ''abcdef'') empty_world =
     (Returned (Some ''Invalid input format.''), empty_world) \<and>
   authenticate sample_env None (login_form ''user@nextmail.com'' ''wrong-password'')
     empty_world =
     (Returned (Some ''Invalid credentials.''),
      \<lparr>db = [],
       calls = [SignIn ''credentials''
                  (login_form ''user@nextmail.com'' ''wrong-password'')]\<rparr>) \<and>
   authenticate sample_env None (login_form ''user@nextmail.com'' ''provider-down'')
     empty_world =
     (Returned (Some ''Something went wrong.''),
      \<lparr>db = [],
       calls = [SignIn ''credentials''
                  (login_form ''user@nextmail.com'' ''provider-down'')]\<rparr>) \<and>
   authenticate sample_env None (login_form ''user@nextmail.com'' ''unexpected'')
     empty_world =
     (Threw (OtherError ''TypeError''),
      \<lparr>db = [],
       calls = [SignIn ''credentials''
                  (login_form ''user@nextmail.com'' ''unexpected'')]\<rparr>)"
  using
    C6_authenticate_failures [of sample_env "login_form [] ''abcdef''" None empty_world]
    C6_authenticate_failures [of sample_env
      "login_form ''user@nextmail.com'' ''wrong-password''" None empty_world]
    C6_authenticate_failures [of sample_env
      "login_form ''user@nextmail.com'' ''provider-down''" None empty_world
      "''CallbackRouteError''"]
    C6_authenticate_failures [of sample_env
      "login_form ''user@nextmail.com'' ''unexpected''" None empty_world _
      "OtherError ''TypeError''"]
  by (simp add: sample_eval handler_eval)

text \<open>
  Claim C9. When the credentials pass the shape check and the provider call resolves,
  \<^verbatim>\<open>authenticate\<close> returns \<^verbatim>\<open>undefined\<close>.
\<close>

theorem C9_authenticate_success_undefined:
  assumes "AuthSchema_success env (FormData_get formData ''email'')
             (FormData_get formData ''password'')"
    and "signIn env ''credentials'' formData = None"
  shows "fst (authenticate env prevState formData w) = Returned None"
  using assms by (simp add: authenticate_def)

theorem C9_witness:
  "AuthSchema_success sample_env
     (FormData_get (login_form ''user@nextmail.com'' ''correct-password'') ''email'')
     (FormData_get (login_form ''user@nextmail.com'' ''correct-password'') ''password'') \<and>
   signIn sample_env ''credentials'' (login_form ''user@nextmail.com'' ''correct-password'') =
     None \<and>
   fst (authenticate sample_env None (login_form ''user@nextmail.com'' ''correct-password'')
     empty_world) = Returned None"
proof -
  have v: "AuthSchema_success sample_env
      (FormData_get (login_form ''user@nextmail.com'' ''correct-password'') ''email'')
      (FormData_get (login_form ''user@nextmail.com'' ''correct-password'') ''password'')"
    by (simp add: sample_eval handler_eval)
  have r: "signIn sample_env ''credentials''
      (login_form ''user@nextmail.com'' ''correct-password'') = None"
    by (simp add: sample_eval handler_eval)
  show ?thesis
    using v r C9_authenticate_success_undefined [OF v r, of None empty_world] by simp
qed

end
